theory Spec2Isabelle
  imports Main "HOL-Library.Word"
begin

section \<open>Values shared by the views\<close>

text \<open>
  A JavaScript string is a sequence of UTF-16 code units. The literals of the source are
  ASCII; \<open>js\<close> turns such a literal into its code units.
\<close>

type_synonym code_unit = "16 word"
type_synonym js_string = "code_unit list"

definition js :: "string \<Rightarrow> js_string" where
  "js s = map (\<lambda>c. of_nat (of_char c)) s"

text \<open>Row and user identifiers are opaque strings (UUIDs) that the views only compare.\<close>

type_synonym uuid = string

text \<open>The signed-in user of the auth context; \<open>auth_id\<close> is \<open>user.id\<close>.\<close>

record auth_user =
  auth_id :: uuid

text \<open>
  The data client is an external collaborator. An awaited call either resolves with an
  object \<open>{ data, error }\<close>, where either part may be null, or the promise rejects and
  the \<open>await\<close> throws into the enclosing \<open>catch\<close>.
\<close>

datatype db_error = DbError string

datatype 'a response = Response (data: "'a option") (error: "db_error option")

datatype 'a outcome = Fulfilled "'a response" | Rejected

text \<open>The transient notices of \<open>toast.error\<close> and \<open>toast.success\<close>, oldest first.\<close>

datatype toast = ToastError string | ToastSuccess string

record notices =
  toasts :: "toast list"

definition toast_error :: "string \<Rightarrow> 'a notices_scheme \<Rightarrow> 'a notices_scheme" where
  "toast_error msg s = s\<lparr>toasts := toasts s @ [ToastError msg]\<rparr>"

definition toast_success :: "string \<Rightarrow> 'a notices_scheme \<Rightarrow> 'a notices_scheme" where
  "toast_success msg s = s\<lparr>toasts := toasts s @ [ToastSuccess msg]\<rparr>"

section \<open>Component rows\<close>

text \<open>
  The fields of a publish form come first: the rows below reuse the names \<open>title\<close>,
  \<open>description\<close>, \<open>code\<close> and \<open>tags\<close>, so the form's are written \<open>form_data.title\<close>
  and so on.
\<close>

record form_data =
  title :: js_string
  description :: js_string
  code :: js_string
  tags :: "js_string list"
  tagInput :: js_string

text \<open>
  \<open>component_insert\<close> is the object handed to \<open>insert\<close> by the publish view;
  \<open>component\<close> is a row as the feed receives it: the inserted columns, the columns
  the data service fills in, the joined profile, and the two optional annotations
  \<open>is_liked\<close> and \<open>is_saved\<close> (\<open>None\<close> when the property is absent). Nullable columns
  are options. \<open>created_at\<close> stands for the instant of the timestamp column; the views
  never compare it themselves.
\<close>

record component_insert =
  user_id :: uuid
  title :: js_string
  description :: "js_string option"
  code :: js_string
  tags :: "js_string list"
  preview_image_url :: "js_string option"

record profile =
  full_name :: "js_string option"
  avatar_url :: "js_string option"

record component = component_insert +
  id' :: uuid
  likes_count :: "int option"
  saves_count :: "int option"
  created_at :: "int option"
  profiles :: "profile option"
  is_liked :: "bool option"
  is_saved :: "bool option"

section \<open>ComponentCard: the like and save toggles\<close>

text \<open>
  The requests a card sends to the two join tables: the table, the user id and the
  component id of the row deleted or inserted.
\<close>

datatype join_table = Likes | SavedComponents

datatype mutation =
  DeleteRow join_table uuid uuid
| InsertRow join_table uuid uuid

type_synonym join_service = "mutation \<Rightarrow> unit outcome"

datatype callback = OnLike | OnSave

text \<open>
  The counters are JavaScript numbers, that is IEEE 754 doubles. They start from an
  integer column of a row (or 0) and only ever have 1 added or subtracted, so they hold
  integers; a counter is modelled by the integer it holds. The doubles are exact up to
  \<open>2^53\<close> in magnitude; from there on they are spaced \<open>ulp\<close> apart, and the exact sum
  is rounded to the nearest of them, a tie going to the one with the even significand.
\<close>

function ulp :: "int \<Rightarrow> int" where
  "ulp m = (if m < 9007199254740992 then 1 else 2 * ulp (m div 2))"
  by pat_completeness auto
termination
  by (relation "measure nat") auto

declare ulp.simps [simp del]

definition double_round :: "int \<Rightarrow> int" where
  "double_round x =
     (let q = ulp \<bar>x\<bar>; d = x div q; r = x mod q
      in if 2 * r < q then d * q
         else if q < 2 * r then (d + 1) * q
         else if even d then d * q else (d + 1) * q)"

text \<open>\<open>a + b\<close> and \<open>a - b\<close> on numbers that hold integers.\<close>

definition js_add :: "int \<Rightarrow> int \<Rightarrow> int" where
  "js_add a b = double_round (a + b)"

definition js_sub :: "int \<Rightarrow> int \<Rightarrow> int" where
  "js_sub a b = double_round (a - b)"

text \<open>
  The four \<open>useState\<close> cells of a card, together with what the card has done so far:
  the notices shown, the requests issued (\<open>mutations\<close>) and the caller-supplied
  callbacks invoked (\<open>refreshes\<close>).
\<close>

record card_state = notices +
  isLiked :: bool
  isSaved :: bool
  likesCount :: int
  savesCount :: int
  mutations :: "mutation list"
  refreshes :: "callback list"

text \<open>The props: the row shown, and whether \<open>onLike\<close> and \<open>onSave\<close> were supplied.\<close>

record card_props =
  shown :: component
  onLike :: bool
  onSave :: bool

definition initial_card :: "card_props \<Rightarrow> card_state" where
  "initial_card p =
     \<lparr>toasts = [],
      isLiked = (case is_liked (shown p) of Some b \<Rightarrow> b | None \<Rightarrow> False),
      isSaved = (case is_saved (shown p) of Some b \<Rightarrow> b | None \<Rightarrow> False),
      likesCount = (case likes_count (shown p) of Some n \<Rightarrow> n | None \<Rightarrow> 0),
      savesCount = (case saves_count (shown p) of Some n \<Rightarrow> n | None \<Rightarrow> 0),
      mutations = [],
      refreshes = []\<rparr>"

definition issue :: "mutation \<Rightarrow> card_state \<Rightarrow> card_state" where
  "issue m s = s\<lparr>mutations := mutations s @ [m]\<rparr>"

definition invoke :: "bool \<Rightarrow> callback \<Rightarrow> card_state \<Rightarrow> card_state" where
  "invoke supplied cb s = (if supplied then s\<lparr>refreshes := refreshes s @ [cb]\<rparr> else s)"

text \<open>
  \<open>handleLike\<close>. The result of the awaited request is never inspected: when the
  \<open>await\<close> returns, the state setters and the callback run; when it throws, control
  goes to the \<open>catch\<close> and the setters are skipped.
\<close>

definition handleLike ::
  "auth_user option \<Rightarrow> card_props \<Rightarrow> join_service \<Rightarrow> card_state \<Rightarrow> card_state" where
  "handleLike user p svc s =
     (case user of
        None \<Rightarrow> toast_error ''Please sign in to like components'' s
      | Some u \<Rightarrow>
          if isLiked s then
            (let m = DeleteRow Likes (auth_id u) (id' (shown p)); s1 = issue m s in
             case svc m of
               Rejected \<Rightarrow> toast_error ''Failed to update like'' s1
             | Fulfilled r \<Rightarrow>
                 invoke (onLike p) OnLike
                   (s1\<lparr>isLiked := False, likesCount := js_sub (likesCount s1) 1\<rparr>))
          else
            (let m = InsertRow Likes (auth_id u) (id' (shown p)); s1 = issue m s in
             case svc m of
               Rejected \<Rightarrow> toast_error ''Failed to update like'' s1
             | Fulfilled r \<Rightarrow>
                 invoke (onLike p) OnLike
                   (s1\<lparr>isLiked := True, likesCount := js_add (likesCount s1) 1\<rparr>)))"

definition handleSave ::
  "auth_user option \<Rightarrow> card_props \<Rightarrow> join_service \<Rightarrow> card_state \<Rightarrow> card_state" where
  "handleSave user p svc s =
     (case user of
        None \<Rightarrow> toast_error ''Please sign in to save components'' s
      | Some u \<Rightarrow>
          if isSaved s then
            (let m = DeleteRow SavedComponents (auth_id u) (id' (shown p)); s1 = issue m s in
             case svc m of
               Rejected \<Rightarrow> toast_error ''Failed to update save'' s1
             | Fulfilled r \<Rightarrow>
                 invoke (onSave p) OnSave
                   (s1\<lparr>isSaved := False, savesCount := js_sub (savesCount s1) 1\<rparr>))
          else
            (let m = InsertRow SavedComponents (auth_id u) (id' (shown p)); s1 = issue m s in
             case svc m of
               Rejected \<Rightarrow> toast_error ''Failed to update save'' s1
             | Fulfilled r \<Rightarrow>
                 invoke (onSave p) OnSave
                   (s1\<lparr>isSaved := True, savesCount := js_add (savesCount s1) 1\<rparr>)))"

section \<open>Home: assembling the feed\<close>

datatype sort_mode = Newest | Trending | Saved

text \<open>
  The two arguments of \<open>order(column, { ascending: ... })\<close>: the column named and the
  direction asked for.
\<close>

datatype order_column = ByLikesCount | ByCreatedAt

record order_clause =
  column :: order_column
  ascending :: bool

text \<open>
  The rows of the two membership queries carry \<open>component_id\<close> only; a row of the
  saved-components query also carries the joined component. The join is an inner one
  (\<open>components!inner\<close>), so the joined component is never null.
\<close>

record like_row =
  component_id :: uuid

record saved_row = like_row +
  components_inner :: component

text \<open>
  The four queries of the feed, as the data client answers them. The arguments are the
  parts of the query the view chooses: the viewer's id of \<open>eq('user_id', ...)\<close>, the
  ids of \<open>in('component_id', ...)\<close> and the order clause of the components query.
\<close>

record feed_service =
  select_saved :: "uuid \<Rightarrow> saved_row list outcome"
  select_components :: "order_clause \<Rightarrow> component list outcome"
  select_likes :: "uuid \<Rightarrow> uuid list \<Rightarrow> like_row list outcome"
  select_saves :: "uuid \<Rightarrow> uuid list \<Rightarrow> like_row list outcome"

record page = notices +
  console :: "string list"
  loading :: bool

record home_state = page +
  components :: "component list"
  searchTerm :: js_string
  sortBy :: sort_mode

definition console_error :: "string \<Rightarrow> 'a page_scheme \<Rightarrow> 'a page_scheme" where
  "console_error msg s = s\<lparr>console := console s @ [msg]\<rparr>"

text \<open>\<open>new Set(data?.map(r => r.component_id) || [])\<close>, as the list of its members.\<close>

definition id_set :: "like_row list response \<Rightarrow> uuid list" where
  "id_set r = (case data r of Some rows \<Rightarrow> map component_id rows | None \<Rightarrow> [])"

text \<open>The order clause the view adds to the components query; both are descending.\<close>

definition order_for :: "sort_mode \<Rightarrow> order_clause" where
  "order_for m =
     (if m = Trending then \<lparr>column = ByLikesCount, ascending = False\<rparr>
      else \<lparr>column = ByCreatedAt, ascending = False\<rparr>)"

text \<open>
  The two branches of the \<open>try\<close> block. \<open>None\<close> means that an exception reached the
  \<open>catch\<close>; every \<open>throw\<close> and every \<open>await\<close> comes before the branch's only
  \<open>setComponents\<close>, so the state is then still the one the branch started from.
\<close>

definition fetch_saved :: "feed_service \<Rightarrow> auth_user \<Rightarrow> home_state \<Rightarrow> home_state option" where
  "fetch_saved svc u s =
     (case select_saved svc (auth_id u) of
        Rejected \<Rightarrow> None
      | Fulfilled r \<Rightarrow>
          if error r \<noteq> None then None
          else
            (let savedComponents =
                   (case data r of
                      Some rows \<Rightarrow>
                        map (\<lambda>item. (components_inner item)
                               \<lparr>profiles := profiles (components_inner item),
                                is_saved := Some True\<rparr>) rows
                    | None \<Rightarrow> [])
             in if length savedComponents > 0 then
                  (let componentIds = map id' savedComponents in
                   case select_likes svc (auth_id u) componentIds of
                     Rejected \<Rightarrow> None
                   | Fulfilled likes \<Rightarrow>
                       Some (s\<lparr>components :=
                                 map (\<lambda>c. c\<lparr>is_liked := Some (id' c \<in> set (id_set likes))\<rparr>)
                                   savedComponents\<rparr>))
                else Some (s\<lparr>components := []\<rparr>)))"

definition fetch_feed ::
  "feed_service \<Rightarrow> auth_user option \<Rightarrow> home_state \<Rightarrow> home_state option" where
  "fetch_feed svc user s =
     (case select_components svc (order_for (sortBy s)) of
        Rejected \<Rightarrow> None
      | Fulfilled r \<Rightarrow>
          if error r \<noteq> None then None
          else
            (let componentsData = (case data r of Some rows \<Rightarrow> rows | None \<Rightarrow> []) in
             case user of
               None \<Rightarrow> Some (s\<lparr>components := componentsData\<rparr>)
             | Some u \<Rightarrow>
                 if length componentsData > 0 then
                   (let componentIds = map id' componentsData in
                    case (select_likes svc (auth_id u) componentIds,
                          select_saves svc (auth_id u) componentIds) of
                      (Fulfilled likesResult, Fulfilled savesResult) \<Rightarrow>
                        Some (s\<lparr>components :=
                                  map (\<lambda>c. c\<lparr>is_liked := Some (id' c \<in> set (id_set likesResult)),
                                            is_saved := Some (id' c \<in> set (id_set savesResult))\<rparr>)
                                    componentsData\<rparr>)
                    | _ \<Rightarrow> None)
                 else Some (s\<lparr>components := componentsData\<rparr>)))"

definition try_fetch ::
  "feed_service \<Rightarrow> auth_user option \<Rightarrow> home_state \<Rightarrow> home_state option" where
  "try_fetch svc user s =
     (case user of
        Some u \<Rightarrow> if sortBy s = Saved then fetch_saved svc u s else fetch_feed svc user s
      | None \<Rightarrow> fetch_feed svc user s)"

text \<open>\<open>fetchComponents\<close>: the \<open>try\<close> block, its \<open>catch\<close> and its \<open>finally\<close>.\<close>

definition fetchComponents ::
  "feed_service \<Rightarrow> auth_user option \<Rightarrow> home_state \<Rightarrow> home_state" where
  "fetchComponents svc user s =
     (let s1 = s\<lparr>loading := True\<rparr>;
          s2 = (case try_fetch svc user s1 of
                  Some s' \<Rightarrow> s'
                | None \<Rightarrow>
                    toast_error ''Failed to load components''
                      (console_error ''Error fetching components:'' s1))
      in s2\<lparr>loading := False\<rparr>)"

section \<open>Publish: the submit handler\<close>

text \<open>
  \<open>String.prototype.trim\<close> strips the code units of ECMAScript's WhiteSpace and
  LineTerminator productions from both ends; all of them lie in the Basic Multilingual
  Plane, so the test is one on single code units. A string is falsy exactly when it is
  empty.
\<close>

definition isWhiteSpace :: "code_unit \<Rightarrow> bool" where
  "isWhiteSpace c \<longleftrightarrow>
     c \<in> {0x9, 0xA, 0xB, 0xC, 0xD, 0x20, 0xA0, 0x1680, 0x2028, 0x2029, 0x202F, 0x205F,
          0x3000, 0xFEFF}
     \<or> (0x2000 \<le> c \<and> c \<le> 0x200A)"

definition trim :: "js_string \<Rightarrow> js_string" where
  "trim s = rev (dropWhile isWhiteSpace (rev (dropWhile isWhiteSpace s)))"

text \<open>The selected \<open>File\<close>; only its name is read.\<close>

record js_file =
  name :: js_string

text \<open>
  The storage bucket and the components table, as the data client answers:
  \<open>upload path file\<close>, the synchronous \<open>getPublicUrl path\<close> (its \<open>publicUrl\<close>) and
  the \<open>insert\<close> of one row.
\<close>

record publish_service =
  upload :: "js_string \<Rightarrow> js_file \<Rightarrow> unit outcome"
  getPublicUrl :: "js_string \<Rightarrow> js_string"
  insert_component :: "component_insert \<Rightarrow> unit outcome"

text \<open>
  The state of the publish view, with what the handler has done so far: the paths it
  uploaded to, the rows it handed to \<open>insert\<close> and the routes it navigated to.
\<close>

record publish_state = page +
  formData :: form_data
  previewImage :: "js_file option"
  uploads :: "js_string list"
  inserts :: "component_insert list"
  navigations :: "string list"

text \<open>\<open>name.split('.').pop()\<close>: what follows the last dot, or the whole name.\<close>

definition fileExt :: "js_string \<Rightarrow> js_string" where
  "fileExt n = rev (takeWhile (\<lambda>c. c \<noteq> 0x2E) (rev n))"

text \<open>The upload path; \<open>rnd\<close> is the text of the number \<open>Math.random()\<close> returned.\<close>

definition filePath :: "js_string \<Rightarrow> js_file \<Rightarrow> js_string" where
  "filePath rnd f = js ''previews/'' @ rnd @ js ''.'' @ fileExt (name f)"

definition new_row :: "auth_user \<Rightarrow> form_data \<Rightarrow> js_string option \<Rightarrow> component_insert" where
  "new_row u fd previewImageUrl =
     \<lparr>user_id = auth_id u,
      title = trim (form_data.title fd),
      description =
        (if trim (form_data.description fd) = [] then None
         else Some (trim (form_data.description fd))),
      code = trim (form_data.code fd),
      tags = form_data.tags fd,
      preview_image_url = previewImageUrl\<rparr>"

text \<open>
  The upload step of the \<open>try\<close> block. \<open>Inl\<close>: the \<open>await\<close> threw; \<open>Inr\<close>: the step
  finished with this value of \<open>previewImageUrl\<close>.
\<close>

definition upload_preview ::
  "publish_service \<Rightarrow> js_string \<Rightarrow> publish_state
     \<Rightarrow> publish_state + js_string option \<times> publish_state" where
  "upload_preview svc rnd s =
     (case previewImage s of
        None \<Rightarrow> Inr (None, s)
      | Some f \<Rightarrow>
          (let s1 = s\<lparr>uploads := uploads s @ [filePath rnd f]\<rparr> in
           case upload svc (filePath rnd f) f of
             Rejected \<Rightarrow> Inl s1
           | Fulfilled r \<Rightarrow>
               (case error r of
                  Some uploadError \<Rightarrow> Inr (None, console_error ''Upload error:'' s1)
                | None \<Rightarrow> Inr (Some (getPublicUrl svc (filePath rnd f)), s1))))"

definition navigate :: "string \<Rightarrow> publish_state \<Rightarrow> publish_state" where
  "navigate route s = s\<lparr>navigations := navigations s @ [route]\<rparr>"

text \<open>The whole \<open>try\<close> block; \<open>Inl\<close> again means that an exception reached the \<open>catch\<close>.\<close>

definition submit_body ::
  "auth_user \<Rightarrow> publish_service \<Rightarrow> js_string \<Rightarrow> publish_state
     \<Rightarrow> publish_state + publish_state" where
  "submit_body u svc rnd s =
     (case upload_preview svc rnd s of
        Inl s1 \<Rightarrow> Inl s1
      | Inr (previewImageUrl, s1) \<Rightarrow>
          (let row = new_row u (formData s1) previewImageUrl;
               s2 = s1\<lparr>inserts := inserts s1 @ [row]\<rparr>
           in case insert_component svc row of
                Rejected \<Rightarrow> Inl s2
              | Fulfilled r \<Rightarrow>
                  if error r \<noteq> None then Inl s2
                  else Inr (navigate ''/''
                             (toast_success ''Component published successfully!'' s2))))"

definition handleSubmit ::
  "auth_user option \<Rightarrow> publish_service \<Rightarrow> js_string \<Rightarrow> publish_state \<Rightarrow> publish_state" where
  "handleSubmit user svc rnd s =
     (case user of
        None \<Rightarrow> s
      | Some u \<Rightarrow>
          if trim (form_data.title (formData s)) = [] \<or> trim (form_data.code (formData s)) = []
          then toast_error ''Please fill in all required fields'' s
          else
            (let s1 = s\<lparr>loading := True\<rparr>;
                 s2 = (case submit_body u svc rnd s1 of
                         Inr s' \<Rightarrow> s'
                       | Inl s' \<Rightarrow>
                           toast_error ''Failed to publish component''
                             (console_error ''Error publishing component:'' s'))
             in s2\<lparr>loading := False\<rparr>))"

section \<open>What the properties speak about\<close>

subsection \<open>Ordering and membership, as the data service is expected to answer\<close>

text \<open>
  Descending order on a nullable column, with rows whose value is null first, as the
  data service orders them when no null placement is asked for.
\<close>

definition nulls_first_desc :: "int option \<Rightarrow> int option \<Rightarrow> bool" where
  "nulls_first_desc x y =
     (case x of None \<Rightarrow> True | Some a \<Rightarrow> (case y of None \<Rightarrow> False | Some b \<Rightarrow> b \<le> a))"

fun column_value :: "order_column \<Rightarrow> component \<Rightarrow> int option" where
  "column_value ByLikesCount c = likes_count c"
| "column_value ByCreatedAt c = created_at c"

definition ordered_desc :: "order_column \<Rightarrow> component list \<Rightarrow> bool" where
  "ordered_desc col cs =
     sorted_wrt (\<lambda>a b. nulls_first_desc (column_value col a) (column_value col b)) cs"

text \<open>Ascending order is the converse: smaller values first, rows with null last.\<close>

definition ordered_asc :: "order_column \<Rightarrow> component list \<Rightarrow> bool" where
  "ordered_asc col cs =
     sorted_wrt (\<lambda>a b. nulls_first_desc (column_value col b) (column_value col a)) cs"

definition rows_ordered :: "order_clause \<Rightarrow> component list outcome \<Rightarrow> bool" where
  "rows_ordered clause out =
     (case out of
        Rejected \<Rightarrow> True
      | Fulfilled r \<Rightarrow>
          (case data r of
             None \<Rightarrow> True
           | Some rows \<Rightarrow>
               if ascending clause then ordered_asc (column clause) rows
               else ordered_desc (column clause) rows))"

text \<open>
  The service honours \<open>order\<close>: for each column and each direction, the rows it returns
  are in the order that was asked for.
\<close>

definition honours_order :: "feed_service \<Rightarrow> bool" where
  "honours_order svc \<longleftrightarrow>
     list_all (\<lambda>clause. rows_ordered clause (select_components svc clause))
       [\<lparr>column = ByLikesCount, ascending = False\<rparr>,
        \<lparr>column = ByLikesCount, ascending = True\<rparr>,
        \<lparr>column = ByCreatedAt, ascending = False\<rparr>,
        \<lparr>column = ByCreatedAt, ascending = True\<rparr>]"

text \<open>
  The service honours the filter and the join of the saved-components query for the
  viewer \<open>uid\<close>: every row it returns is a row \<open>(uid, component_id)\<close> of the
  saved-components table, joined with the component of that id.
\<close>

definition honours_saved_join :: "(uuid \<times> uuid) list \<Rightarrow> feed_service \<Rightarrow> uuid \<Rightarrow> bool" where
  "honours_saved_join saved_components svc uid =
     (case select_saved svc uid of
        Rejected \<Rightarrow> True
      | Fulfilled r \<Rightarrow>
          (case data r of
             None \<Rightarrow> True
           | Some rows \<Rightarrow>
               list_all (\<lambda>row. (uid, component_id row) \<in> set saved_components
                                \<and> id' (components_inner row) = component_id row) rows))"

text \<open>A fetch that ended in the \<open>catch\<close>: the list is the old one and the notice is shown.\<close>

definition load_failure_reported :: "home_state \<Rightarrow> home_state \<Rightarrow> bool" where
  "load_failure_reported s s' \<longleftrightarrow>
     components s' = components s
     \<and> toasts s' = toasts s @ [ToastError ''Failed to load components'']"

subsection \<open>Counters in the exact range\<close>

text \<open>\<open>Number.isSafeInteger\<close>: the integers of magnitude below \<open>2^53\<close>.\<close>

definition isSafeInteger :: "int \<Rightarrow> bool" where
  "isSafeInteger n \<longleftrightarrow> \<bar>n\<bar> < 9007199254740992"

subsection \<open>Outcomes of a publication\<close>

definition required_missing :: "publish_state \<Rightarrow> bool" where
  "required_missing s \<longleftrightarrow>
     trim (form_data.title (formData s)) = [] \<or> trim (form_data.code (formData s)) = []"

definition insert_fails :: "unit outcome \<Rightarrow> bool" where
  "insert_fails out = (case out of Rejected \<Rightarrow> True | Fulfilled r \<Rightarrow> error r \<noteq> None)"

definition upload_throws :: "publish_service \<Rightarrow> js_string \<Rightarrow> publish_state \<Rightarrow> bool" where
  "upload_throws svc rnd s =
     (case previewImage s of
        None \<Rightarrow> False
      | Some f \<Rightarrow> upload svc (filePath rnd f) f = Rejected)"

definition uploaded_url :: "publish_service \<Rightarrow> js_string \<Rightarrow> publish_state \<Rightarrow> js_string option" where
  "uploaded_url svc rnd s =
     (case previewImage s of
        None \<Rightarrow> None
      | Some f \<Rightarrow>
          (case upload svc (filePath rnd f) f of
             Rejected \<Rightarrow> None
           | Fulfilled r \<Rightarrow>
               (case error r of
                  Some e \<Rightarrow> None
                | None \<Rightarrow> Some (getPublicUrl svc (filePath rnd f)))))"

text \<open>
  A publication fails when the upload throws, or when the insert of the row built from
  the form throws or resolves with an error.
\<close>

definition publish_fails ::
  "auth_user \<Rightarrow> publish_service \<Rightarrow> js_string \<Rightarrow> publish_state \<Rightarrow> bool" where
  "publish_fails u svc rnd s \<longleftrightarrow>
     upload_throws svc rnd s
     \<or> insert_fails (insert_component svc (new_row u (formData s) (uploaded_url svc rnd s)))"

section \<open>Sample inputs\<close>

definition sample_user :: auth_user where
  "sample_user = \<lparr>auth_id = ''u1''\<rparr>"

definition sample_component :: "uuid \<Rightarrow> int \<Rightarrow> int \<Rightarrow> component" where
  "sample_component i likes created =
     \<lparr>user_id = ''u2'', title = js ''Card'', description = None, code = js ''<div/>'',
      tags = [], preview_image_url = None, id' = i, likes_count = Some likes,
      saves_count = Some 0, created_at = Some created, profiles = None,
      is_liked = None, is_saved = None\<rparr>"

definition sample_props :: card_props where
  "sample_props = \<lparr>shown = sample_component ''c1'' 5 100, onLike = True, onSave = True\<rparr>"

text \<open>A card whose row arrived annotated as liked and saved while both counters are 0.\<close>

definition stale_props :: card_props where
  "stale_props =
     \<lparr>shown = (sample_component ''c1'' 0 100)\<lparr>is_liked := Some True, is_saved := Some True\<rparr>,
      onLike = True, onSave = True\<rparr>"

text \<open>
  Cards whose counters have left the exact range: one not liked showing \<open>2^53\<close> likes,
  one liked and saved showing \<open>2^53 + 2\<close> likes and saves.
\<close>

definition huge_props :: card_props where
  "huge_props =
     \<lparr>shown = sample_component ''c1'' 9007199254740992 100, onLike = True, onSave = True\<rparr>"

definition huge_liked_props :: card_props where
  "huge_liked_props =
     \<lparr>shown = (sample_component ''c1'' 9007199254740994 100)
                \<lparr>saves_count := Some 9007199254740994, is_liked := Some True,
                 is_saved := Some True\<rparr>,
      onLike = True, onSave = True\<rparr>"

text \<open>Three data clients: every request succeeds, resolves with an error, or throws.\<close>

definition accepting :: join_service where
  "accepting m = Fulfilled (Response None None)"

definition erring :: join_service where
  "erring m = Fulfilled (Response None (Some (DbError ''permission denied'')))"

definition rejecting :: join_service where
  "rejecting m = Rejected"

definition sample_home :: "sort_mode \<Rightarrow> home_state" where
  "sample_home m =
     \<lparr>toasts = [], console = [], loading = False, components = [], searchTerm = [],
      sortBy = m\<rparr>"

text \<open>
  A data service holding the components \<open>c1\<close> (7 likes, created at 100) and \<open>c2\<close>
  (3 likes, created at 200), one like of \<open>u1\<close> on \<open>c1\<close> and one saved row of \<open>u1\<close> on
  \<open>c2\<close>.
\<close>

definition sample_saved_table :: "(uuid \<times> uuid) list" where
  "sample_saved_table = [(''u1'', ''c2'')]"

definition sample_service :: feed_service where
  "sample_service =
     \<lparr>select_saved = (\<lambda>uid.
        Fulfilled (Response
          (Some (if uid = ''u1''
                 then [\<lparr>component_id = ''c2'', components_inner = sample_component ''c2'' 3 200\<rparr>]
                 else [])) None)),
      select_components = (\<lambda>clause.
        Fulfilled (Response
          (Some (if (column clause = ByLikesCount) = ascending clause
                 then [sample_component ''c2'' 3 200, sample_component ''c1'' 7 100]
                 else [sample_component ''c1'' 7 100, sample_component ''c2'' 3 200]))
          None)),
      select_likes = (\<lambda>uid ids.
        Fulfilled (Response
          (Some (if uid = ''u1'' \<and> ''c1'' \<in> set ids then [\<lparr>component_id = ''c1''\<rparr>] else []))
          None)),
      select_saves = (\<lambda>uid ids.
        Fulfilled (Response
          (Some (if uid = ''u1'' \<and> ''c2'' \<in> set ids then [\<lparr>component_id = ''c2''\<rparr>] else []))
          None))\<rparr>"

text \<open>The same service when its likes query resolves with an error and no data.\<close>

definition likes_erring_service :: feed_service where
  "likes_erring_service =
     sample_service
       \<lparr>select_likes := (\<lambda>uid ids. Fulfilled (Response None (Some (DbError ''timeout''))))\<rparr>"

definition sample_form :: "js_string \<Rightarrow> js_string \<Rightarrow> form_data" where
  "sample_form t c =
     \<lparr>form_data.title = t, form_data.description = [], form_data.code = c,
      form_data.tags = [], tagInput = []\<rparr>"

definition sample_publish :: "form_data \<Rightarrow> js_file option \<Rightarrow> publish_state" where
  "sample_publish fd img =
     \<lparr>toasts = [], console = [], loading = False, formData = fd, previewImage = img,
      uploads = [], inserts = [], navigations = []\<rparr>"

text \<open>
  A storage bucket that refuses every upload with an error, over a table that accepts
  every row; the same with an upload call that throws; the same with a table that
  refuses every row.
\<close>

definition upload_erring :: publish_service where
  "upload_erring =
     \<lparr>upload = (\<lambda>path f. Fulfilled (Response None (Some (DbError ''bucket not found'')))),
      getPublicUrl = (\<lambda>path. js ''https://cdn/'' @ path),
      insert_component = (\<lambda>row. Fulfilled (Response None None))\<rparr>"

definition upload_rejecting :: publish_service where
  "upload_rejecting = upload_erring\<lparr>upload := (\<lambda>path f. Rejected)\<rparr>"

definition insert_erring :: publish_service where
  "insert_erring =
     upload_erring
       \<lparr>insert_component := (\<lambda>row. Fulfilled (Response None (Some (DbError ''denied''))))\<rparr>"

definition sample_image :: js_file where
  "sample_image = \<lparr>name = js ''a.png''\<rparr>"

text \<open>A filled form (its title has a leading blank) and one whose title is only blanks.\<close>

definition filled_form :: form_data where
  "filled_form = sample_form (js '' Card'') (js ''<div/>'')"

definition blank_title_form :: form_data where
  "blank_title_form = sample_form [0x20, 0xA0, 0x9] (js ''<div/>'')"

section \<open>The like and save toggles\<close>

text \<open>Below \<open>2^53\<close> the doubles are the integers; at \<open>2^53\<close> they are 2 apart.\<close>

lemma ulp_small: "m < 9007199254740992 \<Longrightarrow> ulp m = 1"
  by (subst ulp.simps) simp

lemma ulp_step: "\<not> m < 9007199254740992 \<Longrightarrow> ulp m = 2 * ulp (m div 2)"
  by (subst ulp.simps) simp

lemma double_round_exact:
  assumes "\<bar>x\<bar> \<le> 9007199254740992"
  shows "double_round x = x"
proof (cases "\<bar>x\<bar> < 9007199254740992")
  case True
  then show ?thesis by (simp add: double_round_def ulp_small)
next
  case False
  with assms have "\<bar>x\<bar> = 9007199254740992" by simp
  then have "x = 9007199254740992 \<or> x = - 9007199254740992" by arith
  then show ?thesis
    by (auto simp add: double_round_def ulp_step ulp_small)
qed

lemma js_add_one: "isSafeInteger n \<Longrightarrow> js_add n 1 = n + 1"
  by (simp add: js_add_def isSafeInteger_def double_round_exact)

lemma js_sub_one: "isSafeInteger n \<Longrightarrow> js_sub n 1 = n - 1"
  by (simp add: js_sub_def isSafeInteger_def double_round_exact)

lemma js_sub_add_one: "isSafeInteger n \<Longrightarrow> js_sub (n + 1) 1 = n"
  by (simp add: js_sub_def isSafeInteger_def double_round_exact)

text \<open>
  C6. A like click by a viewer who is not signed in: no request to a join table is
  issued, the notice asking to sign in is shown, and the local flag and counter are
  what they were. The whole state is the old one with that notice added.
\<close>

theorem like_unauthenticated:
  "handleLike None p svc s
     = s\<lparr>toasts := toasts s @ [ToastError ''Please sign in to like components'']\<rparr>
   \<and> mutations (handleLike None p svc s) = mutations s
   \<and> likesCount (handleLike None p svc s) = likesCount s
   \<and> isLiked (handleLike None p svc s) = isLiked s"
  by (simp add: handleLike_def toast_error_def)

text \<open>
  C5, as stated: for every component, toggling like on and then off returns the counter
  to its original value. It fails on a card that is not liked and shows \<open>2^53\<close> likes:
  the counter is a JavaScript number, \<open>2^53 + 1\<close> rounds back to \<open>2^53\<close>, and the
  second toggle leaves \<open>2^53 - 1\<close>.
\<close>

theorem like_on_then_off_counterexample:
  "\<not> isLiked (initial_card huge_props)
   \<and> accepting (InsertRow Likes ''u1'' ''c1'') \<noteq> Rejected
   \<and> accepting (DeleteRow Likes ''u1'' ''c1'') \<noteq> Rejected
   \<and> likesCount (initial_card huge_props) = 9007199254740992
   \<and> likesCount (handleLike (Some sample_user) huge_props accepting (initial_card huge_props))
       = 9007199254740992
   \<and> likesCount (handleLike (Some sample_user) huge_props accepting
        (handleLike (Some sample_user) huge_props accepting (initial_card huge_props)))
       = 9007199254740991
   \<and> likesCount (handleLike (Some sample_user) huge_props accepting
        (handleLike (Some sample_user) huge_props accepting (initial_card huge_props)))
       \<noteq> likesCount (initial_card huge_props)"
  by (simp add: handleLike_def issue_def invoke_def Let_def initial_card_def huge_props_def
        sample_user_def sample_component_def accepting_def js_add_def js_sub_def
        double_round_def ulp_step ulp_small)

text \<open>
  C5, amended. A signed-in user toggles like twice, starting from a card that is not
  liked and whose counter is a safe integer (of magnitude below \<open>2^53\<close>). The first
  toggle turns the like on and adds one to the counter, the second turns it off: the
  counter is back at its original value and the flag is false. Toggling means that
  the two requests return.
\<close>

theorem like_on_then_off:
  assumes "\<not> isLiked s"
    and "isSafeInteger (likesCount s)"
    and "svc1 (InsertRow Likes (auth_id u) (id' (shown p))) \<noteq> Rejected"
    and "svc2 (DeleteRow Likes (auth_id u) (id' (shown p))) \<noteq> Rejected"
  shows "likesCount (handleLike (Some u) p svc2 (handleLike (Some u) p svc1 s)) = likesCount s
       \<and> isLiked (handleLike (Some u) p svc2 (handleLike (Some u) p svc1 s)) = False
       \<and> isLiked (handleLike (Some u) p svc1 s) = True
       \<and> likesCount (handleLike (Some u) p svc1 s) = likesCount s + 1"
  using assms
  by (simp add: handleLike_def issue_def invoke_def Let_def js_add_one js_sub_add_one
        split: outcome.splits)

text \<open>C5, amended, on a card showing 5 likes: on gives 6, off gives 5 again.\<close>

theorem like_on_then_off_witness:
  "\<not> isLiked (initial_card sample_props)
   \<and> isSafeInteger (likesCount (initial_card sample_props))
   \<and> accepting (InsertRow Likes ''u1'' ''c1'') \<noteq> Rejected
   \<and> accepting (DeleteRow Likes ''u1'' ''c1'') \<noteq> Rejected
   \<and> likesCount (initial_card sample_props) = 5
   \<and> likesCount (handleLike (Some sample_user) sample_props accepting (initial_card sample_props)) = 6
   \<and> likesCount (handleLike (Some sample_user) sample_props accepting
        (handleLike (Some sample_user) sample_props accepting (initial_card sample_props))) = 5
   \<and> \<not> isLiked (handleLike (Some sample_user) sample_props accepting
        (handleLike (Some sample_user) sample_props accepting (initial_card sample_props)))"
  using like_on_then_off [of "initial_card sample_props" accepting sample_user sample_props accepting]
  by (simp add: initial_card_def sample_props_def sample_user_def sample_component_def
        accepting_def isSafeInteger_def)

text \<open>
  C10, as stated: every toggle-off takes exactly one off the counter, whatever its
  value. It fails in two ways. On a card that is liked and saved with both counters
  at 0, a delete request that throws leaves the counters at 0, not at -1. On a card
  whose counters are \<open>2^53 + 2\<close>, a toggle-off gives \<open>2^53\<close>: the exact difference is
  not a JavaScript number and is rounded.
\<close>

theorem toggle_off_counterexample:
  "isLiked (initial_card stale_props)
   \<and> likesCount (initial_card stale_props) = 0
   \<and> likesCount (handleLike (Some sample_user) stale_props rejecting (initial_card stale_props)) = 0
   \<and> isSaved (initial_card stale_props)
   \<and> savesCount (initial_card stale_props) = 0
   \<and> savesCount (handleSave (Some sample_user) stale_props rejecting (initial_card stale_props)) = 0
   \<and> isLiked (initial_card huge_liked_props)
   \<and> likesCount (initial_card huge_liked_props) = 9007199254740994
   \<and> likesCount (handleLike (Some sample_user) huge_liked_props accepting
        (initial_card huge_liked_props)) = 9007199254740992
   \<and> isSaved (initial_card huge_liked_props)
   \<and> savesCount (initial_card huge_liked_props) = 9007199254740994
   \<and> savesCount (handleSave (Some sample_user) huge_liked_props accepting
        (initial_card huge_liked_props)) = 9007199254740992"
  by (simp add: handleLike_def handleSave_def issue_def invoke_def toast_error_def Let_def
        initial_card_def stale_props_def huge_liked_props_def sample_user_def
        sample_component_def accepting_def rejecting_def js_sub_def double_round_def
        ulp_step ulp_small)

text \<open>
  C10, amended. A signed-in user toggles a like or a save off. When the delete request
  returns and the local counter is a safe integer (of magnitude below \<open>2^53\<close>), the
  counter goes down by exactly one, with no clamping at zero. When the delete request
  throws, the counter keeps its value.
\<close>

theorem toggle_off_decrements:
  "(isLiked s \<and> isSafeInteger (likesCount s)
      \<and> svc (DeleteRow Likes (auth_id u) (id' (shown p))) \<noteq> Rejected
      \<longrightarrow> likesCount (handleLike (Some u) p svc s) = likesCount s - 1)
   \<and> (isLiked s \<and> svc (DeleteRow Likes (auth_id u) (id' (shown p))) = Rejected
      \<longrightarrow> likesCount (handleLike (Some u) p svc s) = likesCount s)
   \<and> (isSaved s \<and> isSafeInteger (savesCount s)
      \<and> svc (DeleteRow SavedComponents (auth_id u) (id' (shown p))) \<noteq> Rejected
      \<longrightarrow> savesCount (handleSave (Some u) p svc s) = savesCount s - 1)
   \<and> (isSaved s \<and> svc (DeleteRow SavedComponents (auth_id u) (id' (shown p))) = Rejected
      \<longrightarrow> savesCount (handleSave (Some u) p svc s) = savesCount s)"
  by (simp add: handleLike_def handleSave_def issue_def invoke_def toast_error_def Let_def
        js_sub_one split: outcome.splits)

text \<open>
  C10, amended, on a card that is liked and saved while both counters are 0: both
  become -1 when the request returns, and the like counter stays 0 when it throws.
\<close>

theorem toggle_off_decrements_witness:
  "isLiked (initial_card stale_props) \<and> likesCount (initial_card stale_props) = 0
   \<and> isSafeInteger (likesCount (initial_card stale_props))
   \<and> accepting (DeleteRow Likes ''u1'' ''c1'') \<noteq> Rejected
   \<and> likesCount (handleLike (Some sample_user) stale_props accepting (initial_card stale_props)) = - 1
   \<and> isSaved (initial_card stale_props) \<and> savesCount (initial_card stale_props) = 0
   \<and> accepting (DeleteRow SavedComponents ''u1'' ''c1'') \<noteq> Rejected
   \<and> savesCount (handleSave (Some sample_user) stale_props accepting (initial_card stale_props)) = - 1
   \<and> rejecting (DeleteRow Likes ''u1'' ''c1'') = Rejected
   \<and> likesCount (handleLike (Some sample_user) stale_props rejecting (initial_card stale_props)) = 0"
  using toggle_off_decrements [of "initial_card stale_props" accepting sample_user stale_props]
    toggle_off_decrements [of "initial_card stale_props" rejecting sample_user stale_props]
  by (simp add: initial_card_def stale_props_def sample_user_def sample_component_def
        accepting_def rejecting_def isSafeInteger_def)

text \<open>
  C1, as stated: whenever the request of a toggle fails, a notice is surfaced and the
  flag and counter are flipped all the same. It fails on a card showing 5 likes, not
  liked, for both ways a request can fail. When the request throws, the notice is
  shown but the card is not changed; when it resolves with an error, the card is
  changed (liked, 6 likes) but no notice is shown.
\<close>

theorem failed_toggle_counterexample:
  "\<not> (toasts (handleLike (Some sample_user) sample_props rejecting (initial_card sample_props)) \<noteq> []
      \<and> isLiked (handleLike (Some sample_user) sample_props rejecting (initial_card sample_props))
      \<and> likesCount (handleLike (Some sample_user) sample_props rejecting (initial_card sample_props)) = 6)
   \<and> \<not> (toasts (handleLike (Some sample_user) sample_props erring (initial_card sample_props)) \<noteq> []
      \<and> isLiked (handleLike (Some sample_user) sample_props erring (initial_card sample_props))
      \<and> likesCount (handleLike (Some sample_user) sample_props erring (initial_card sample_props)) = 6)"
  by (simp add: handleLike_def issue_def invoke_def toast_error_def initial_card_def
        sample_props_def sample_user_def sample_component_def rejecting_def erring_def Let_def)

text \<open>
  C1, amended. A signed-in user toggles a like or a save and the delete or insert
  request throws: the failure notice is surfaced, and the local flag, the local counter
  and the callback are untouched. The setters run only after the request has returned,
  so there is no optimistic change that could be rolled back.
\<close>

theorem toggle_thrown_request:
  "(svc (if isLiked s then DeleteRow Likes (auth_id u) (id' (shown p))
         else InsertRow Likes (auth_id u) (id' (shown p))) = Rejected
      \<longrightarrow> toasts (handleLike (Some u) p svc s) = toasts s @ [ToastError ''Failed to update like'']
        \<and> isLiked (handleLike (Some u) p svc s) = isLiked s
        \<and> likesCount (handleLike (Some u) p svc s) = likesCount s
        \<and> refreshes (handleLike (Some u) p svc s) = refreshes s)
   \<and> (svc (if isSaved s then DeleteRow SavedComponents (auth_id u) (id' (shown p))
         else InsertRow SavedComponents (auth_id u) (id' (shown p))) = Rejected
      \<longrightarrow> toasts (handleSave (Some u) p svc s) = toasts s @ [ToastError ''Failed to update save'']
        \<and> isSaved (handleSave (Some u) p svc s) = isSaved s
        \<and> savesCount (handleSave (Some u) p svc s) = savesCount s
        \<and> refreshes (handleSave (Some u) p svc s) = refreshes s)"
  by (simp add: handleLike_def handleSave_def issue_def toast_error_def Let_def)

text \<open>C1, amended, on a like that throws (5 likes, not liked) and an unsave that throws.\<close>

theorem toggle_thrown_request_witness:
  "rejecting (InsertRow Likes ''u1'' ''c1'') = Rejected
   \<and> toasts (handleLike (Some sample_user) sample_props rejecting (initial_card sample_props))
       = [ToastError ''Failed to update like'']
   \<and> \<not> isLiked (handleLike (Some sample_user) sample_props rejecting (initial_card sample_props))
   \<and> likesCount (handleLike (Some sample_user) sample_props rejecting (initial_card sample_props)) = 5
   \<and> rejecting (DeleteRow SavedComponents ''u1'' ''c1'') = Rejected
   \<and> toasts (handleSave (Some sample_user) stale_props rejecting (initial_card stale_props))
       = [ToastError ''Failed to update save'']
   \<and> isSaved (handleSave (Some sample_user) stale_props rejecting (initial_card stale_props))
   \<and> savesCount (handleSave (Some sample_user) stale_props rejecting (initial_card stale_props)) = 0"
  using toggle_thrown_request [of rejecting "initial_card sample_props" sample_user sample_props]
    toggle_thrown_request [of rejecting "initial_card stale_props" sample_user stale_props]
  by (simp add: initial_card_def sample_props_def stale_props_def sample_user_def
        sample_component_def rejecting_def)

section \<open>The feed\<close>

text \<open>When the \<open>try\<close> block throws, the notice is shown and the list is the old one.\<close>

lemma fetch_thrown:
  "try_fetch svc user (s\<lparr>loading := True\<rparr>) = None \<Longrightarrow>
   load_failure_reported s (fetchComponents svc user s) \<and> \<not> loading (fetchComponents svc user s)"
  by (simp add: fetchComponents_def load_failure_reported_def toast_error_def console_error_def)

lemma fetch_done:
  "try_fetch svc user (s\<lparr>loading := True\<rparr>) = Some s' \<Longrightarrow>
   components (fetchComponents svc user s) = components s'
   \<and> toasts (fetchComponents svc user s) = toasts s'"
  by (simp add: fetchComponents_def)

text \<open>
  The regular feed throws exactly when the components query throws or resolves with an
  error, or a membership query throws. A membership query that resolves with an error
  is not among these cases.
\<close>

lemma fetch_feed_throws:
  "fetch_feed svc user s = None \<longleftrightarrow>
     (case select_components svc (order_for (sortBy s)) of
        Rejected \<Rightarrow> True
      | Fulfilled r \<Rightarrow>
          error r \<noteq> None
          \<or> (case user of
                None \<Rightarrow> False
              | Some u \<Rightarrow>
                  data r \<noteq> None \<and> data r \<noteq> Some []
                  \<and> (select_likes svc (auth_id u)
                        (map id' (case data r of Some rows \<Rightarrow> rows | None \<Rightarrow> [])) = Rejected
                     \<or> select_saves svc (auth_id u)
                        (map id' (case data r of Some rows \<Rightarrow> rows | None \<Rightarrow> [])) = Rejected)))"
  by (auto simp add: fetch_feed_def Let_def split: outcome.splits option.splits)

text \<open>
  C2, evaluated where it fails. A signed-in viewer opens the newest feed; the
  components query succeeds and the likes query resolves with an error. No notice is
  shown, and the list, empty before, is replaced by the fetched rows, each annotated
  as not liked (the viewer's like of \<open>c1\<close> is lost).
\<close>

theorem membership_error_unreported:
  "toasts (fetchComponents likes_erring_service (Some sample_user) (sample_home Newest)) = []
   \<and> components (sample_home Newest) = []
   \<and> components (fetchComponents likes_erring_service (Some sample_user) (sample_home Newest))
       = [(sample_component ''c2'' 3 200)\<lparr>is_liked := Some False, is_saved := Some True\<rparr>,
          (sample_component ''c1'' 7 100)\<lparr>is_liked := Some False, is_saved := Some False\<rparr>]"
  by (simp add: fetchComponents_def try_fetch_def fetch_feed_def id_set_def order_for_def
        sample_home_def sample_service_def likes_erring_service_def sample_user_def
        sample_component_def Let_def)

text \<open>Both order clauses of the view ask for descending order.\<close>

lemma order_for_descending: "\<not> ascending (order_for m)"
  by (simp add: order_for_def)

text \<open>Annotating the rows keeps their order.\<close>

lemma fetch_feed_ordered:
  assumes "rows_ordered (order_for (sortBy s)) (select_components svc (order_for (sortBy s)))"
    and "fetch_feed svc user s = Some s'"
  shows "ordered_desc (column (order_for (sortBy s))) (components s')"
proof (cases "select_components svc (order_for (sortBy s))")
  case Rejected
  with assms(2) show ?thesis by (simp add: fetch_feed_def)
next
  case (Fulfilled r)
  define rows where "rows = (case data r of Some rows \<Rightarrow> rows | None \<Rightarrow> [])"
  have ord: "ordered_desc (column (order_for (sortBy s))) rows"
    using assms(1) Fulfilled
    by (simp add: rows_ordered_def rows_def ordered_desc_def order_for_descending
          split: option.splits)
  have keep: "ordered_desc (column (order_for (sortBy s)))
                (map (\<lambda>c. c\<lparr>is_liked := Some (l c), is_saved := Some (v c)\<rparr>) rows)" for l v
    using ord
    by (cases "column (order_for (sortBy s))") (simp_all add: ordered_desc_def sorted_wrt_map)
  show ?thesis
    using assms(2) Fulfilled ord keep
    by (auto simp add: fetch_feed_def Let_def rows_def [symmetric]
          split: if_splits option.splits outcome.splits)
qed

text \<open>
  C3. Over a data service that honours \<open>order\<close> in both directions, the list a feed
  fetch produces is in the order of its sort mode: creation time descending for
  newest, like counter descending for trending. The view asks for the column of the
  mode with \<open>ascending: false\<close>, and its annotation keeps the order. A fetch that
  produces no list reports the failure and keeps the old one.
\<close>

theorem feed_order:
  assumes "honours_order svc"
  shows "(sortBy s = Newest \<longrightarrow>
            load_failure_reported s (fetchComponents svc user s)
            \<or> ordered_desc ByCreatedAt (components (fetchComponents svc user s)))
       \<and> (sortBy s = Trending \<longrightarrow>
            load_failure_reported s (fetchComponents svc user s)
            \<or> ordered_desc ByLikesCount (components (fetchComponents svc user s)))"
proof -
  have ord: "rows_ordered (order_for m) (select_components svc (order_for m))" for m
    using assms by (simp add: honours_order_def order_for_def)
  have feed: "sortBy s \<noteq> Saved \<Longrightarrow>
      try_fetch svc user (s\<lparr>loading := True\<rparr>) = fetch_feed svc user (s\<lparr>loading := True\<rparr>)"
    by (simp add: try_fetch_def split: option.splits)
  have main: "sortBy s \<noteq> Saved \<Longrightarrow>
      load_failure_reported s (fetchComponents svc user s)
      \<or> ordered_desc (column (order_for (sortBy s))) (components (fetchComponents svc user s))"
  proof (cases "try_fetch svc user (s\<lparr>loading := True\<rparr>)")
    case None
    then show ?thesis using fetch_thrown by blast
  next
    case (Some s')
    assume "sortBy s \<noteq> Saved"
    with Some have "fetch_feed svc user (s\<lparr>loading := True\<rparr>) = Some s'"
      using feed by simp
    then have "ordered_desc (column (order_for (sortBy s))) (components s')"
      using fetch_feed_ordered [of "s\<lparr>loading := True\<rparr>" svc user s'] ord [of "sortBy s"]
      by simp
    with Some show ?thesis using fetch_done by simp
  qed
  show ?thesis using main by (auto simp add: order_for_def)
qed

text \<open>
  C3, on a service holding \<open>c1\<close> (7 likes, created at 100) and \<open>c2\<close> (3 likes, created
  at 200), which answers an ascending clause in ascending order: trending lists
  \<open>c1, c2\<close> and newest lists \<open>c2, c1\<close>.
\<close>

theorem feed_order_witness:
  "honours_order sample_service
   \<and> sortBy (sample_home Trending) = Trending
   \<and> \<not> load_failure_reported (sample_home Trending)
         (fetchComponents sample_service (Some sample_user) (sample_home Trending))
   \<and> map id' (components (fetchComponents sample_service (Some sample_user) (sample_home Trending)))
       = [''c1'', ''c2'']
   \<and> ordered_desc ByLikesCount
       (components (fetchComponents sample_service (Some sample_user) (sample_home Trending)))
   \<and> sortBy (sample_home Newest) = Newest
   \<and> \<not> load_failure_reported (sample_home Newest)
         (fetchComponents sample_service (Some sample_user) (sample_home Newest))
   \<and> map id' (components (fetchComponents sample_service (Some sample_user) (sample_home Newest)))
       = [''c2'', ''c1'']
   \<and> ordered_desc ByCreatedAt
       (components (fetchComponents sample_service (Some sample_user) (sample_home Newest)))"
proof -
  have h: "honours_order sample_service"
    by (simp add: honours_order_def rows_ordered_def ordered_desc_def ordered_asc_def
          nulls_first_desc_def sample_service_def sample_component_def)
  have t: "\<not> load_failure_reported (sample_home Trending)
         (fetchComponents sample_service (Some sample_user) (sample_home Trending))"
    by (simp add: load_failure_reported_def fetchComponents_def try_fetch_def fetch_feed_def
          order_for_def sample_home_def sample_service_def sample_user_def Let_def)
  have n: "\<not> load_failure_reported (sample_home Newest)
         (fetchComponents sample_service (Some sample_user) (sample_home Newest))"
    by (simp add: load_failure_reported_def fetchComponents_def try_fetch_def fetch_feed_def
          order_for_def sample_home_def sample_service_def sample_user_def Let_def)
  have ids:
    "map id' (components (fetchComponents sample_service (Some sample_user) (sample_home Trending)))
       = [''c1'', ''c2'']"
    "map id' (components (fetchComponents sample_service (Some sample_user) (sample_home Newest)))
       = [''c2'', ''c1'']"
    by (simp_all add: fetchComponents_def try_fetch_def fetch_feed_def order_for_def
          sample_home_def sample_service_def sample_user_def sample_component_def Let_def)
  have m: "sortBy (sample_home Trending) = Trending" "sortBy (sample_home Newest) = Newest"
    by (simp_all add: sample_home_def)
  show ?thesis
    using feed_order [OF h, of "sample_home Trending" "Some sample_user"]
      feed_order [OF h, of "sample_home Newest" "Some sample_user"] h t n ids m
    by simp
qed

lemma fetch_saved_rows:
  assumes "honours_saved_join tbl svc (auth_id u)"
    and "fetch_saved svc u s = Some s'"
  shows "list_all (\<lambda>c. (auth_id u, id' c) \<in> set tbl \<and> is_saved c = Some True) (components s')"
proof (cases "select_saved svc (auth_id u)")
  case Rejected
  with assms(2) show ?thesis by (simp add: fetch_saved_def)
next
  case (Fulfilled r)
  show ?thesis
    using assms Fulfilled
    by (auto simp add: fetch_saved_def honours_saved_join_def Let_def list_all_iff
          split: if_splits option.splits outcome.splits)
qed

text \<open>
  C4. A signed-in viewer fetches the feed in saved mode, over a data service that
  honours the filter and the join of the saved-components query. Every component of the
  list the fetch produces has a row of the saved-components table for that viewer and
  is marked as saved. A fetch that produces no list reports the failure and keeps the
  old one.
\<close>

theorem saved_feed_rows:
  assumes "sortBy s = Saved"
    and "honours_saved_join tbl svc (auth_id u)"
  shows "load_failure_reported s (fetchComponents svc (Some u) s)
       \<or> list_all (\<lambda>c. (auth_id u, id' c) \<in> set tbl \<and> is_saved c = Some True)
            (components (fetchComponents svc (Some u) s))"
proof (cases "try_fetch svc (Some u) (s\<lparr>loading := True\<rparr>)")
  case None
  then show ?thesis using fetch_thrown by blast
next
  case (Some s')
  then have "fetch_saved svc u (s\<lparr>loading := True\<rparr>) = Some s'"
    using assms(1) by (simp add: try_fetch_def)
  then have "list_all (\<lambda>c. (auth_id u, id' c) \<in> set tbl \<and> is_saved c = Some True) (components s')"
    using fetch_saved_rows assms(2) by blast
  with Some show ?thesis using fetch_done by simp
qed

text \<open>C4, for the viewer \<open>u1\<close>, whose only saved row is on \<open>c2\<close>: the list is \<open>c2\<close>.\<close>

theorem saved_feed_rows_witness:
  "sortBy (sample_home Saved) = Saved
   \<and> honours_saved_join sample_saved_table sample_service (auth_id sample_user)
   \<and> \<not> load_failure_reported (sample_home Saved)
         (fetchComponents sample_service (Some sample_user) (sample_home Saved))
   \<and> map id' (components (fetchComponents sample_service (Some sample_user) (sample_home Saved)))
       = [''c2'']
   \<and> list_all (\<lambda>c. (auth_id sample_user, id' c) \<in> set sample_saved_table \<and> is_saved c = Some True)
       (components (fetchComponents sample_service (Some sample_user) (sample_home Saved)))"
proof -
  have m: "sortBy (sample_home Saved) = Saved"
    by (simp add: sample_home_def)
  have h: "honours_saved_join sample_saved_table sample_service (auth_id sample_user)"
    by (simp add: honours_saved_join_def sample_saved_table_def sample_service_def
          sample_user_def sample_component_def)
  have n: "\<not> load_failure_reported (sample_home Saved)
         (fetchComponents sample_service (Some sample_user) (sample_home Saved))"
    by (simp add: load_failure_reported_def fetchComponents_def try_fetch_def fetch_saved_def
          sample_home_def sample_service_def sample_user_def Let_def)
  have ids:
    "map id' (components (fetchComponents sample_service (Some sample_user) (sample_home Saved)))
       = [''c2'']"
    by (simp add: fetchComponents_def try_fetch_def fetch_saved_def sample_home_def
          sample_service_def sample_user_def sample_component_def Let_def)
  show ?thesis
    using saved_feed_rows [OF m h] m h n ids by simp
qed

section \<open>Publishing\<close>

text \<open>
  C7. A submission whose title or code is empty after trimming is rejected in the
  client: nothing is uploaded, no row is handed to \<open>insert\<close>, there is no redirect,
  and the signed-in user is shown the notice asking for the required fields. (The
  form is rendered for a signed-in user only; without one the handler returns at
  once, also without an insert.)
\<close>

theorem publish_required_fields:
  assumes "required_missing s"
  shows "inserts (handleSubmit user svc rnd s) = inserts s
       \<and> uploads (handleSubmit user svc rnd s) = uploads s
       \<and> navigations (handleSubmit user svc rnd s) = navigations s
       \<and> toasts (handleSubmit (Some u) svc rnd s)
           = toasts s @ [ToastError ''Please fill in all required fields'']"
  using assms
  by (simp add: handleSubmit_def required_missing_def toast_error_def split: option.splits)

text \<open>C7, on a title made of a space, a no-break space and a tab.\<close>

theorem publish_required_fields_witness:
  "required_missing (sample_publish blank_title_form None)
   \<and> inserts (handleSubmit (Some sample_user) upload_erring (js ''0.42'')
        (sample_publish blank_title_form None)) = []
   \<and> toasts (handleSubmit (Some sample_user) upload_erring (js ''0.42'')
        (sample_publish blank_title_form None))
       = [ToastError ''Please fill in all required fields'']"
proof -
  have h: "required_missing (sample_publish blank_title_form None)"
    by (simp add: required_missing_def sample_publish_def blank_title_form_def sample_form_def
          trim_def isWhiteSpace_def)
  show ?thesis
    using publish_required_fields [OF h, of "Some sample_user" upload_erring "js ''0.42''" sample_user] h
    by (simp add: sample_publish_def)
qed

text \<open>What the upload step leaves untouched, and what it returns.\<close>

lemma upload_preview_done:
  "upload_preview svc rnd s = Inr (url, s1) \<Longrightarrow>
     formData s1 = formData s \<and> toasts s1 = toasts s \<and> navigations s1 = navigations s
     \<and> inserts s1 = inserts s \<and> url = uploaded_url svc rnd s \<and> \<not> upload_throws svc rnd s"
  by (auto simp add: upload_preview_def uploaded_url_def upload_throws_def console_error_def Let_def
        split: option.splits outcome.splits)

lemma upload_preview_thrown:
  "upload_preview svc rnd s = Inl s1 \<Longrightarrow>
     formData s1 = formData s \<and> toasts s1 = toasts s \<and> navigations s1 = navigations s
     \<and> inserts s1 = inserts s \<and> upload_throws svc rnd s"
  by (auto simp add: upload_preview_def upload_throws_def console_error_def Let_def
        split: option.splits outcome.splits)

lemma upload_loading:
  "upload_throws svc rnd (s\<lparr>loading := b\<rparr>) = upload_throws svc rnd s"
  "uploaded_url svc rnd (s\<lparr>loading := b\<rparr>) = uploaded_url svc rnd s"
  by (simp_all add: upload_throws_def uploaded_url_def)

lemma submit_body_thrown:
  assumes "submit_body u svc rnd s = Inl s'"
  shows "publish_fails u svc rnd s \<and> formData s' = formData s \<and> toasts s' = toasts s
       \<and> navigations s' = navigations s"
proof (cases "upload_preview svc rnd s")
  case (Inl s1)
  with assms have "s' = s1" by (simp add: submit_body_def)
  with Inl show ?thesis using upload_preview_thrown [of svc rnd s s1]
    by (simp add: publish_fails_def)
next
  case (Inr p)
  obtain url s1 where p: "p = (url, s1)" by (cases p)
  note up = upload_preview_done [of svc rnd s url s1]
  show ?thesis
    using assms Inr p up
    by (auto simp add: submit_body_def publish_fails_def insert_fails_def Let_def
          split: outcome.splits if_splits)
qed

lemma submit_body_done:
  assumes "submit_body u svc rnd s = Inr s'"
  shows "\<not> publish_fails u svc rnd s \<and> formData s' = formData s
       \<and> toasts s' = toasts s @ [ToastSuccess ''Component published successfully!'']
       \<and> navigations s' = navigations s @ [''/'']"
proof (cases "upload_preview svc rnd s")
  case (Inl s1)
  with assms show ?thesis by (simp add: submit_body_def)
next
  case (Inr p)
  obtain url s1 where p: "p = (url, s1)" by (cases p)
  note up = upload_preview_done [of svc rnd s url s1]
  show ?thesis
    using assms Inr p up
    by (auto simp add: submit_body_def publish_fails_def insert_fails_def Let_def
          navigate_def toast_success_def
          split: outcome.splits if_splits)
qed

text \<open>
  C8. A signed-in user submits a form whose required fields are filled. When the
  publication succeeds the user is redirected to the feed; when it fails the failure
  notice is surfaced and there is no redirect. Either way the form keeps the values
  that were entered.
\<close>

theorem publish_outcome:
  assumes "\<not> required_missing s"
  shows "formData (handleSubmit (Some u) svc rnd s) = formData s
       \<and> (if publish_fails u svc rnd s
          then toasts (handleSubmit (Some u) svc rnd s)
                 = toasts s @ [ToastError ''Failed to publish component'']
               \<and> navigations (handleSubmit (Some u) svc rnd s) = navigations s
          else navigations (handleSubmit (Some u) svc rnd s) = navigations s @ [''/'']
               \<and> toasts (handleSubmit (Some u) svc rnd s)
                 = toasts s @ [ToastSuccess ''Component published successfully!''])"
proof (cases "submit_body u svc rnd (s\<lparr>loading := True\<rparr>)")
  case (Inl s')
  from submit_body_thrown [OF Inl] have
    "publish_fails u svc rnd s" "formData s' = formData s" "toasts s' = toasts s"
    "navigations s' = navigations s"
    by (simp_all add: publish_fails_def upload_loading)
  with assms Inl show ?thesis
    by (simp add: handleSubmit_def required_missing_def toast_error_def console_error_def)
next
  case (Inr s')
  from submit_body_done [OF Inr] have
    "\<not> publish_fails u svc rnd s" "formData s' = formData s"
    "toasts s' = toasts s @ [ToastSuccess ''Component published successfully!'']"
    "navigations s' = navigations s @ [''/'']"
    by (simp_all add: publish_fails_def upload_loading)
  with assms Inr show ?thesis
    by (simp add: handleSubmit_def required_missing_def)
qed

lemma filled_form_filled: "\<not> required_missing (sample_publish filled_form img)"
  by (simp add: required_missing_def sample_publish_def filled_form_def sample_form_def
        trim_def isWhiteSpace_def js_def)

text \<open>
  C8, on the filled form without an image: over a table that refuses the row the
  notice is shown and the form is kept; over one that accepts it the user is sent to
  the feed.
\<close>

theorem publish_outcome_witness:
  "\<not> required_missing (sample_publish filled_form None)
   \<and> publish_fails sample_user insert_erring (js ''0.42'') (sample_publish filled_form None)
   \<and> toasts (handleSubmit (Some sample_user) insert_erring (js ''0.42'')
        (sample_publish filled_form None))
       = [ToastError ''Failed to publish component'']
   \<and> navigations (handleSubmit (Some sample_user) insert_erring (js ''0.42'')
        (sample_publish filled_form None)) = []
   \<and> formData (handleSubmit (Some sample_user) insert_erring (js ''0.42'')
        (sample_publish filled_form None)) = filled_form
   \<and> \<not> publish_fails sample_user upload_erring (js ''0.42'') (sample_publish filled_form None)
   \<and> navigations (handleSubmit (Some sample_user) upload_erring (js ''0.42'')
        (sample_publish filled_form None)) = [''/'']"
proof -
  have f: "publish_fails sample_user insert_erring (js ''0.42'') (sample_publish filled_form None)"
    by (simp add: publish_fails_def upload_throws_def insert_fails_def sample_publish_def
          insert_erring_def upload_erring_def)
  have g: "\<not> publish_fails sample_user upload_erring (js ''0.42'')
             (sample_publish filled_form None)"
    by (simp add: publish_fails_def upload_throws_def insert_fails_def sample_publish_def
          upload_erring_def)
  have h: "\<not> required_missing (sample_publish filled_form None)"
    by (rule filled_form_filled)
  show ?thesis
    using publish_outcome [OF h, of sample_user insert_erring "js ''0.42''"]
      publish_outcome [OF h, of sample_user upload_erring "js ''0.42''"] h f g
    by (simp add: sample_publish_def)
qed

text \<open>
  C9, as stated: whenever the upload of the preview image fails, publication is not
  aborted. It fails when the upload call throws: on the filled form with the image
  \<open>a.png\<close> no row is handed to \<open>insert\<close>, there is no redirect, and the notice shown
  is the failure one.
\<close>

theorem upload_thrown_counterexample:
  "previewImage (sample_publish filled_form (Some sample_image)) = Some sample_image
   \<and> upload upload_rejecting (filePath (js ''0.42'') sample_image) sample_image = Rejected
   \<and> inserts (handleSubmit (Some sample_user) upload_rejecting (js ''0.42'')
        (sample_publish filled_form (Some sample_image))) = []
   \<and> navigations (handleSubmit (Some sample_user) upload_rejecting (js ''0.42'')
        (sample_publish filled_form (Some sample_image))) = []
   \<and> toasts (handleSubmit (Some sample_user) upload_rejecting (js ''0.42'')
        (sample_publish filled_form (Some sample_image)))
       = [ToastError ''Failed to publish component'']"
  by (simp add: handleSubmit_def submit_body_def upload_preview_def toast_error_def
        console_error_def trim_def isWhiteSpace_def js_def sample_publish_def filled_form_def
        sample_form_def sample_image_def upload_rejecting_def upload_erring_def Let_def)

text \<open>
  C9, amended. A signed-in user submits a filled form with a preview image. When the
  upload resolves with an error, publication goes on: the row built from the form
  (the user's id, the trimmed title, description and code, the tags) is handed to
  \<open>insert\<close> with a null preview image reference; the only notice shown is the one
  about the insert (published, or failed to publish), and the upload error goes to
  the console alone. When the upload call throws, publication is aborted: no row is
  handed to \<open>insert\<close>, there is no redirect, and the failure notice is shown.
\<close>

theorem publish_upload_error:
  assumes "\<not> required_missing s"
    and "previewImage s = Some f"
  shows "(upload svc (filePath rnd f) f = Fulfilled r \<and> error r = Some e \<longrightarrow>
            inserts (handleSubmit (Some u) svc rnd s)
              = inserts s @
                [\<lparr>user_id = auth_id u,
                  title = trim (form_data.title (formData s)),
                  description =
                    (if trim (form_data.description (formData s)) = [] then None
                     else Some (trim (form_data.description (formData s)))),
                  code = trim (form_data.code (formData s)),
                  tags = form_data.tags (formData s),
                  preview_image_url = None\<rparr>]
          \<and> toasts (handleSubmit (Some u) svc rnd s)
              = toasts s @
                [if insert_fails (insert_component svc (new_row u (formData s) None))
                 then ToastError ''Failed to publish component''
                 else ToastSuccess ''Component published successfully!'']
          \<and> console (handleSubmit (Some u) svc rnd s)
              = console s @ ''Upload error:'' #
                (if insert_fails (insert_component svc (new_row u (formData s) None))
                 then [''Error publishing component:''] else []))
       \<and> (upload svc (filePath rnd f) f = Rejected \<longrightarrow>
            inserts (handleSubmit (Some u) svc rnd s) = inserts s
          \<and> navigations (handleSubmit (Some u) svc rnd s) = navigations s
          \<and> toasts (handleSubmit (Some u) svc rnd s)
              = toasts s @ [ToastError ''Failed to publish component''])"
  using assms
  by (auto simp add: handleSubmit_def required_missing_def submit_body_def upload_preview_def
        insert_fails_def new_row_def toast_error_def toast_success_def console_error_def
        navigate_def Let_def
        split: outcome.splits)

text \<open>
  C9, amended, on the filled form with the image \<open>a.png\<close>: over a bucket that refuses
  the upload one row is inserted, with the trimmed title and without a preview image,
  and the notice is the success one; over an upload that throws nothing is inserted.
\<close>

theorem publish_upload_error_witness:
  "\<not> required_missing (sample_publish filled_form (Some sample_image))
   \<and> previewImage (sample_publish filled_form (Some sample_image)) = Some sample_image
   \<and> upload upload_erring (filePath (js ''0.42'') sample_image) sample_image
       = Fulfilled (Response None (Some (DbError ''bucket not found'')))
   \<and> inserts (handleSubmit (Some sample_user) upload_erring (js ''0.42'')
        (sample_publish filled_form (Some sample_image)))
       = [\<lparr>user_id = ''u1'', title = js ''Card'', description = None, code = js ''<div/>'',
           tags = [], preview_image_url = None\<rparr>]
   \<and> toasts (handleSubmit (Some sample_user) upload_erring (js ''0.42'')
        (sample_publish filled_form (Some sample_image)))
       = [ToastSuccess ''Component published successfully!'']
   \<and> upload upload_rejecting (filePath (js ''0.42'') sample_image) sample_image = Rejected
   \<and> inserts (handleSubmit (Some sample_user) upload_rejecting (js ''0.42'')
        (sample_publish filled_form (Some sample_image))) = []
   \<and> toasts (handleSubmit (Some sample_user) upload_rejecting (js ''0.42'')
        (sample_publish filled_form (Some sample_image)))
       = [ToastError ''Failed to publish component'']"
proof -
  have p: "previewImage (sample_publish filled_form (Some sample_image)) = Some sample_image"
    by (simp add: sample_publish_def)
  have b: "upload upload_erring (filePath (js ''0.42'') sample_image) sample_image
       = Fulfilled (Response None (Some (DbError ''bucket not found'')))"
    by (simp add: upload_erring_def)
  have c: "upload upload_rejecting (filePath (js ''0.42'') sample_image) sample_image = Rejected"
    by (simp add: upload_rejecting_def upload_erring_def)
  have i: "\<not> insert_fails (insert_component upload_erring row)" for row
    by (simp add: insert_fails_def upload_erring_def)
  have h: "\<not> required_missing (sample_publish filled_form (Some sample_image))"
    by (rule filled_form_filled)
  have v: "trim (js '' Card'') = js ''Card''" "trim (js ''<div/>'') = js ''<div/>''"
    "trim [] = []"
    by (simp_all add: trim_def isWhiteSpace_def js_def)
  show ?thesis
    using publish_upload_error [OF h p,
        of upload_erring "js ''0.42''" "Response None (Some (DbError ''bucket not found''))"
          "DbError ''bucket not found''" sample_user]
      publish_upload_error [OF h p, of upload_rejecting "js ''0.42''" _ _ sample_user]
      h p b c i v
    by (simp add: sample_publish_def filled_form_def sample_form_def sample_user_def)
qed

end
